theory Spec2Isabelle
  imports Complex_Main "HOL-Library.Log_Nat"
begin

section \<open>Helpers of \<^verbatim>\<open>ocean_lib/ocean/util.py\<close>: network selection\<close>

text \<open>
  Python exceptions that the helper functions of \<^verbatim>\<open>util.py\<close> can raise by themselves.
  A function that may raise returns \<open>error + 'a\<close>, with \<open>Inl\<close> for the exception.
\<close>

datatype error =
    AssertionError | AttributeError | OverflowError | ValueError | ZeroDivisionError
  | OSError | JSONDecodeError

text \<open>The two provider classes the selection function instantiates, with the URL they get.\<close>

datatype provider = CustomHTTPProvider string | WebsocketProvider string

definition WEB3_INFURA_PROJECT_ID :: string where
  "WEB3_INFURA_PROJECT_ID = ''357f2fe737db4304bd2f7285c5602d0d''"

definition GANACHE_URL :: string where
  "GANACHE_URL = ''http://127.0.0.1:8545''"

definition SUPPORTED_NETWORK_NAMES :: "string set" where
  "SUPPORTED_NETWORK_NAMES = {''rinkeby'', ''kovan'', ''ganache'', ''mainnet'', ''ropsten''}"

text \<open>Python's \<^verbatim>\<open>s.startswith(p)\<close>.\<close>

definition startswith :: "string \<Rightarrow> string \<Rightarrow> bool" where
  "startswith s p \<longleftrightarrow> take (length p) s = p"

text \<open>\<^verbatim>\<open>f"wss://{network}.infura.io/ws/v3/{infura_id}"\<close>\<close>

definition get_infura_url :: "string \<Rightarrow> string \<Rightarrow> string" where
  "get_infura_url infura_id network = ''wss://'' @ network @ ''.infura.io/ws/v3/'' @ infura_id"

text \<open>
  The parameter \<^verbatim>\<open>network_url\<close> is rebound twice in the source; the model names the
  successive values \<open>url1\<close> and the infura URL. A failing \<^verbatim>\<open>assert\<close> is the error
  \<open>AssertionError\<close>.
\<close>

definition get_web3_connection_provider :: "string \<Rightarrow> error + provider" where
  "get_web3_connection_provider network_url =
     (let url1 = (if network_url = ''ganache'' then GANACHE_URL else network_url) in
      if startswith url1 ''http'' then Inr (CustomHTTPProvider url1)
      else if \<not> startswith url1 ''ws'' then
        (if url1 \<in> SUPPORTED_NETWORK_NAMES
         then Inr (WebsocketProvider (get_infura_url WEB3_INFURA_PROJECT_ID url1))
         else Inl AssertionError)
      else Inr (WebsocketProvider url1))"

section \<open>Helpers of \<^verbatim>\<open>util.py\<close>: unit conversion\<close>

subsection \<open>Python numbers\<close>

text \<open>
  The conversion functions are not decorated, so their annotations are not enforced: an
  amount annotated \<^verbatim>\<open>float\<close> is a Python \<^verbatim>\<open>int\<close> or \<^verbatim>\<open>float\<close>. A Python
  \<^verbatim>\<open>int\<close> is an unbounded integer. A Python \<^verbatim>\<open>float\<close> is an IEEE 754 double: a
  finite one is given by its exact rational value, and there are the two infinities and
  not-a-number. The sign of zero is not kept; neither \<^verbatim>\<open>int()\<close> nor \<^verbatim>\<open>==\<close> observes it.
\<close>

datatype pyfloat = Finite rat | PosInf | NegInf | NaN

datatype pynum = PyInt int | PyFloat pyfloat

text \<open>\<open>2\<close> to an integer power, as a rational.\<close>

definition pow2 :: "int \<Rightarrow> rat" where
  "pow2 e = (if 0 \<le> e then 2 ^ nat e else 1 / 2 ^ nat (- e))"

text \<open>The integer part of the binary logarithm of a positive rational.\<close>

definition floor_log2 :: "rat \<Rightarrow> int" where
  "floor_log2 x = (if 1 \<le> x then bitlen \<lfloor>x\<rfloor> - 1 else - bitlen (\<lceil>1 / x\<rceil> - 1))"

text \<open>Rounding of a non-negative rational to the nearest integer, ties to the even one.\<close>

definition round_half_even :: "rat \<Rightarrow> int" where
  "round_half_even x =
     (let f = \<lfloor>x\<rfloor>; d = x - of_int f in
      if d < 1 / 2 then f else if 1 / 2 < d then f + 1 else if even f then f else f + 1)"

text \<open>
  Rounding of an exact value to double precision, to nearest and ties to even: 53
  significant bits, the unit in the last place never below \<open>2\<^sup>-\<^sup>1\<^sup>0\<^sup>7\<^sup>4\<close> (subnormal
  numbers), the exponent not bounded above. The result overflows the doubles when its
  magnitude reaches \<open>2\<^sup>1\<^sup>0\<^sup>2\<^sup>4\<close>.
\<close>

definition round_double :: "rat \<Rightarrow> rat" where
  "round_double x =
     (if x = 0 then 0
      else let e = max (floor_log2 \<bar>x\<bar> - 52) (- 1074) in
        sgn x * of_int (round_half_even (\<bar>x\<bar> / pow2 e)) * pow2 e)"

definition overflows :: "rat \<Rightarrow> bool" where
  "overflows r \<longleftrightarrow> 2 ^ 1024 \<le> \<bar>r\<bar>"

text \<open>
  A rational is the exact value of a finite \<^verbatim>\<open>float\<close> when rounding leaves it as it is
  and it does not overflow.
\<close>

definition representable :: "rat \<Rightarrow> bool" where
  "representable x \<longleftrightarrow> round_double x = x \<and> \<not> overflows x"

text \<open>
  The conversion of an \<^verbatim>\<open>int\<close> operand to \<^verbatim>\<open>float\<close> in mixed arithmetic is correctly
  rounded and raises \<open>OverflowError\<close> when the integer is too large.
\<close>

definition int_to_float :: "int \<Rightarrow> error + pyfloat" where
  "int_to_float n =
     (let r = round_double (of_int n) in
      if overflows r then Inl OverflowError else Inr (Finite r))"

text \<open>
  \<^verbatim>\<open>a / b\<close> on two \<^verbatim>\<open>int\<close>s: the correctly rounded quotient; \<open>ZeroDivisionError\<close> for
  a zero divisor and \<open>OverflowError\<close> for a quotient too large for a \<^verbatim>\<open>float\<close>.
\<close>

definition int_truediv :: "int \<Rightarrow> int \<Rightarrow> error + pyfloat" where
  "int_truediv a b =
     (if b = 0 then Inl ZeroDivisionError
      else let r = round_double (of_int a / of_int b) in
        if overflows r then Inl OverflowError else Inr (Finite r))"

text \<open>
  \<^verbatim>\<open>a * b\<close> on two \<^verbatim>\<open>float\<close>s never raises: a product too large is an infinity, and
  zero times an infinity is not-a-number.
\<close>

fun float_mul :: "pyfloat \<Rightarrow> pyfloat \<Rightarrow> pyfloat" where
  "float_mul NaN _ = NaN"
| "float_mul _ NaN = NaN"
| "float_mul (Finite a) (Finite b) =
     (let r = round_double (a * b) in
      if overflows r then (if 0 < r then PosInf else NegInf) else Finite r)"
| "float_mul (Finite a) PosInf = (if a = 0 then NaN else if 0 < a then PosInf else NegInf)"
| "float_mul (Finite a) NegInf = (if a = 0 then NaN else if 0 < a then NegInf else PosInf)"
| "float_mul PosInf (Finite b) = (if b = 0 then NaN else if 0 < b then PosInf else NegInf)"
| "float_mul NegInf (Finite b) = (if b = 0 then NaN else if 0 < b then NegInf else PosInf)"
| "float_mul PosInf PosInf = PosInf"
| "float_mul PosInf NegInf = NegInf"
| "float_mul NegInf PosInf = NegInf"
| "float_mul NegInf NegInf = PosInf"

text \<open>\<^verbatim>\<open>a * b\<close> on numbers: exact on two \<^verbatim>\<open>int\<close>s, in \<^verbatim>\<open>float\<close> otherwise.\<close>

fun py_mul :: "pynum \<Rightarrow> pynum \<Rightarrow> error + pynum" where
  "py_mul (PyInt a) (PyInt b) = Inr (PyInt (a * b))"
| "py_mul (PyFloat a) (PyInt b) =
     (case int_to_float b of Inl e \<Rightarrow> Inl e | Inr fb \<Rightarrow> Inr (PyFloat (float_mul a fb)))"
| "py_mul (PyInt a) (PyFloat b) =
     (case int_to_float a of Inl e \<Rightarrow> Inl e | Inr fa \<Rightarrow> Inr (PyFloat (float_mul fa b)))"
| "py_mul (PyFloat a) (PyFloat b) = Inr (PyFloat (float_mul a b))"

text \<open>
  \<^verbatim>\<open>int(x)\<close>: the identity on an \<^verbatim>\<open>int\<close>, truncation toward zero on a finite
  \<^verbatim>\<open>float\<close>, \<open>OverflowError\<close> on an infinity and \<open>ValueError\<close> on not-a-number.
\<close>

definition trunc :: "rat \<Rightarrow> int" where
  "trunc q = (if 0 \<le> q then \<lfloor>q\<rfloor> else \<lceil>q\<rceil>)"

fun py_int :: "pynum \<Rightarrow> error + int" where
  "py_int (PyInt a) = Inr a"
| "py_int (PyFloat (Finite q)) = Inr (trunc q)"
| "py_int (PyFloat PosInf) = Inl OverflowError"
| "py_int (PyFloat NegInf) = Inl OverflowError"
| "py_int (PyFloat NaN) = Inl ValueError"

text \<open>\<^verbatim>\<open>f == x\<close> for a \<^verbatim>\<open>float\<close> \<open>f\<close> and a number \<open>x\<close>: the exact comparison of the values.\<close>

fun py_eq :: "pyfloat \<Rightarrow> pynum \<Rightarrow> bool" where
  "py_eq (Finite q) (PyInt i) = (q = of_int i)"
| "py_eq (Finite q) (PyFloat (Finite q')) = (q = q')"
| "py_eq PosInf (PyFloat PosInf) = True"
| "py_eq NegInf (PyFloat NegInf) = True"
| "py_eq _ _ = False"

subsection \<open>The conversion functions\<close>

text \<open>
  The number of decimals is a natural number: the model covers \<^verbatim>\<open>dec >= 0\<close>, where
  \<^verbatim>\<open>10**dec\<close> is an \<^verbatim>\<open>int\<close>. The source computes \<^verbatim>\<open>int(amt * 1*10**dec)\<close>, which
  Python reads as \<^verbatim>\<open>int((amt * 1) * (10**dec))\<close>.
\<close>

definition to_base :: "pynum \<Rightarrow> nat \<Rightarrow> error + int" where
  "to_base amt dec =
     (case py_mul amt (PyInt 1) of
        Inl e \<Rightarrow> Inl e
      | Inr p \<Rightarrow> (case py_mul p (PyInt (10 ^ dec)) of
                   Inl e \<Rightarrow> Inl e
                 | Inr q \<Rightarrow> py_int q))"

definition to_base_18 :: "pynum \<Rightarrow> error + int" where
  "to_base_18 amt = to_base amt 18"

text \<open>
  \<^verbatim>\<open>float(num_base / (10**dec))\<close> on an \<^verbatim>\<open>int\<close> \<^verbatim>\<open>num_base\<close>; \<^verbatim>\<open>float()\<close> of the
  \<^verbatim>\<open>float\<close> quotient is the identity.
\<close>

definition from_base :: "int \<Rightarrow> nat \<Rightarrow> error + pyfloat" where
  "from_base num_base dec = int_truediv num_base (10 ^ dec)"

definition from_base_18 :: "int \<Rightarrow> error + pyfloat" where
  "from_base_18 num_base = from_base num_base 18"

text \<open>
  The value of the Python expression \<^verbatim>\<open>from_base(to_base(amt, dec), dec) == amt\<close>, and of
  \<^verbatim>\<open>from_base_18(to_base_18(amt)) == amt\<close>: an error when one of the calls raises.
\<close>

definition round_trip :: "pynum \<Rightarrow> nat \<Rightarrow> error + bool" where
  "round_trip amt dec =
     (case to_base amt dec of
        Inl e \<Rightarrow> Inl e
      | Inr n \<Rightarrow> (case from_base n dec of Inl e \<Rightarrow> Inl e | Inr f \<Rightarrow> Inr (py_eq f amt)))"

definition round_trip_18 :: "pynum \<Rightarrow> error + bool" where
  "round_trip_18 amt =
     (case to_base_18 amt of
        Inl e \<Rightarrow> Inl e
      | Inr n \<Rightarrow> (case from_base_18 n of Inl e \<Rightarrow> Inl e | Inr f \<Rightarrow> Inr (py_eq f amt)))"

section \<open>Helpers of \<^verbatim>\<open>util.py\<close>: contract addresses\<close>

text \<open>
  \<^verbatim>\<open>get_contracts_addresses\<close> reads the configuration object and the file system. The
  configuration has the one attribute the function reads; \<open>None\<close> is Python's \<^verbatim>\<open>None\<close>.
\<close>

record config =
  address_file :: "string option"

text \<open>
  What \<^verbatim>\<open>json.load\<close> returns: \<^verbatim>\<open>None\<close> for \<^verbatim>\<open>null\<close>, a truth value, a number, a
  string, a list, or a dictionary with strings as keys.
\<close>

datatype json =
    JNull
  | JBool bool
  | JNumber pynum
  | JString string
  | JArray "json list"
  | JObject "string \<Rightarrow> json option"

text \<open>
  What is found at a path that exists: something that \<^verbatim>\<open>open\<close> cannot open (a
  directory, a file without read permission), a text that \<^verbatim>\<open>json.load\<close> cannot parse,
  or a text with its parsed value. The file system is the map from the paths that exist
  to what is found there.
\<close>

datatype file_content = Unreadable | Malformed | Parsed json

type_synonym file_system = "string \<rightharpoonup> file_content"

text \<open>
  \<^verbatim>\<open>d.get(key)\<close> and \<^verbatim>\<open>d.get(key, None)\<close>: on a dictionary the value at the key, or
  \<^verbatim>\<open>None\<close> for a missing key; on \<^verbatim>\<open>None\<close> and on every other value, which has no
  attribute \<^verbatim>\<open>get\<close>, an \<open>AttributeError\<close>.
\<close>

fun py_get :: "json \<Rightarrow> string \<Rightarrow> error + json" where
  "py_get (JObject d) key = Inr (case d key of None \<Rightarrow> JNull | Some v \<Rightarrow> v)"
| "py_get _ key = Inl AttributeError"

text \<open>
  The local \<^verbatim>\<open>_file\<close> is written \<open>file\<close>. \<^verbatim>\<open>not _file\<close> holds for \<^verbatim>\<open>None\<close> and for
  the empty string; \<^verbatim>\<open>os.path.exists(_file)\<close> is membership in the domain of the file
  system; \<^verbatim>\<open>open\<close> raises an \<open>OSError\<close> on what it cannot open and \<^verbatim>\<open>json.load\<close> a
  \<open>JSONDecodeError\<close> on what it cannot parse.
\<close>

definition get_contracts_addresses :: "file_system \<Rightarrow> string \<Rightarrow> config \<Rightarrow> error + json" where
  "get_contracts_addresses fs network config =
     (case address_file config of
        None \<Rightarrow> Inr JNull
      | Some file \<Rightarrow>
          if file = [] then Inr JNull
          else (case fs file of
                  None \<Rightarrow> Inr JNull
                | Some Unreadable \<Rightarrow> Inl OSError
                | Some Malformed \<Rightarrow> Inl JSONDecodeError
                | Some (Parsed addresses) \<Rightarrow> py_get addresses network))"

text \<open>
  What the three address functions take from other modules: the value of
  \<^verbatim>\<open>Web3Helper.get_network_name()\<close>, which is the answer of the node, the value of
  \<^verbatim>\<open>ConfigProvider.get_config()\<close>, and the class constants
  \<^verbatim>\<open>DTFactory.CONTRACT_NAME\<close> and \<^verbatim>\<open>SFactory.CONTRACT_NAME\<close>; together with the file
  system they are the environment of a call.
\<close>

record env =
  files :: file_system
  get_config :: config
  get_network_name :: string
  DTFactory_CONTRACT_NAME :: string
  SFactory_CONTRACT_NAME :: string

text \<open>\<^verbatim>\<open>if network is None: network = Web3Helper.get_network_name()\<close>\<close>

definition default_network :: "env \<Rightarrow> string option \<Rightarrow> string" where
  "default_network e network = (case network of None \<Rightarrow> get_network_name e | Some n \<Rightarrow> n)"

text \<open>
  Each address function calls \<^verbatim>\<open>.get(name)\<close> on what \<^verbatim>\<open>get_contracts_addresses\<close>
  returns; an error of \<^verbatim>\<open>get_contracts_addresses\<close> goes through.
\<close>

definition get_dtfactory_address :: "env \<Rightarrow> string option \<Rightarrow> error + json" where
  "get_dtfactory_address e network =
     (case get_contracts_addresses (files e) (default_network e network) (get_config e) of
        Inl err \<Rightarrow> Inl err
      | Inr d \<Rightarrow> py_get d (DTFactory_CONTRACT_NAME e))"

definition get_sfactory_address :: "env \<Rightarrow> string option \<Rightarrow> error + json" where
  "get_sfactory_address e network =
     (case get_contracts_addresses (files e) (default_network e network) (get_config e) of
        Inl err \<Rightarrow> Inl err
      | Inr d \<Rightarrow> py_get d (SFactory_CONTRACT_NAME e))"

definition get_ocean_token_address :: "env \<Rightarrow> string option \<Rightarrow> error + json" where
  "get_ocean_token_address e network =
     (case get_contracts_addresses (files e) (default_network e network) (get_config e) of
        Inl err \<Rightarrow> Inl err
      | Inr d \<Rightarrow> py_get d ''Ocean'')"

text \<open>An environment without an address file, and one with an address file for \<open>ganache\<close>.\<close>

definition bare_env :: env where
  "bare_env =
     \<lparr>files = Map.empty, get_config = \<lparr>address_file = None\<rparr>, get_network_name = ''ganache'',
      DTFactory_CONTRACT_NAME = ''DTFactory'', SFactory_CONTRACT_NAME = ''SFactory''\<rparr>"

definition ganache_env :: env where
  "ganache_env =
     \<lparr>files = [''address.json'' \<mapsto>
        Parsed (JObject [''ganache'' \<mapsto> JObject [''Ocean'' \<mapsto> JString ''0x01'']])],
      get_config = \<lparr>address_file = Some ''address.json''\<rparr>, get_network_name = ''ganache'',
      DTFactory_CONTRACT_NAME = ''DTFactory'', SFactory_CONTRACT_NAME = ''SFactory''\<rparr>"

section \<open>The pool wrapper \<^verbatim>\<open>ocean_lib/models/v4/bpool.py\<close>\<close>

subsection \<open>Values, wallets and the remote call channel\<close>

text \<open>
  The Python values that the wrapper passes on. The class decorator
  \<^verbatim>\<open>enforce_types\<close> rejects a call whose arguments do not have the annotated types
  before the method body runs; the HOL types of the parameters stand for that check, so
  the model covers the calls that reach a method body: \<^verbatim>\<open>str\<close> is \<open>string\<close>,
  \<^verbatim>\<open>int\<close> is \<open>int\<close> (unbounded, as in Python) and \<^verbatim>\<open>List[int]\<close> is \<open>int list\<close>.
\<close>

datatype pyval = PNone | PBool bool | PInt int | PStr string | PList "pyval list"

text \<open>
  The class \<^verbatim>\<open>Wallet\<close> is defined in another module; the wrapper only hands a
  wallet on, so a wallet is an opaque token.
\<close>

datatype wallet = Wallet string

text \<open>
  \<^verbatim>\<open>BPoolInitialized\<close> (module \<^verbatim>\<open>models_structures\<close>, not modelled here): the
  seven attributes that \<^verbatim>\<open>initialize\<close> reads, each a Python value.
\<close>

record BPoolInitialized =
  controller :: pyval
  factory :: pyval
  swap_fees :: pyval
  public_swap :: pyval
  finalized :: pyval
  tokens :: pyval
  fee_collectors :: pyval

text \<open>
  A \<^verbatim>\<open>BPool\<close> object reaches the outside through three members it inherits:
  \<^verbatim>\<open>self.send_transaction(fn_name, fn_args, from_wallet, transact)\<close>,
  \<^verbatim>\<open>self.contract.caller.<fn>(args)\<close> and \<^verbatim>\<open>self.events.<EVENT>()\<close>. None of them is
  defined in the module of the class, so they are the parameters of the model: a pool object is
  the record of the three. The type \<open>'r\<close> is whatever such a member does when called:
  instantiated with \<open>'e + 'a\<close> it is a call that returns a value or raises the error the
  channel surfaced, instantiated with \<open>'s \<Rightarrow> 'a \<times> 's\<close> it is a call that reads and changes a
  state. The fourth argument of \<open>send_transaction\<close> is the optional dictionary of
  transaction parameters, \<open>None\<close> when the call site passes three arguments.
\<close>

type_synonym transact = "(string \<times> pyval) list"

record 'r BPool =
  send_transaction :: "string \<Rightarrow> pyval list \<Rightarrow> wallet \<Rightarrow> transact option \<Rightarrow> 'r"
  caller :: "string \<Rightarrow> pyval list \<Rightarrow> 'r"
  events :: "string \<Rightarrow> 'r"

definition CONTRACT_NAME :: string where
  "CONTRACT_NAME = ''BPool''"

subsection \<open>The methods\<close>

definition event_LOG_SWAP :: "'r BPool \<Rightarrow> 'r" where
  "event_LOG_SWAP self = events self ''LOG_SWAP''"

definition event_LOG_JOIN :: "'r BPool \<Rightarrow> 'r" where
  "event_LOG_JOIN self = events self ''LOG_JOIN''"

definition event_LOG_EXIT :: "'r BPool \<Rightarrow> 'r" where
  "event_LOG_EXIT self = events self ''LOG_EXIT''"

definition event_LOG_CALL :: "'r BPool \<Rightarrow> 'r" where
  "event_LOG_CALL self = events self ''LOG_CALL''"

definition event_LOG_BPT :: "'r BPool \<Rightarrow> 'r" where
  "event_LOG_BPT self = events self ''LOG_BPT''"

definition initialize :: "'r BPool \<Rightarrow> BPoolInitialized \<Rightarrow> wallet \<Rightarrow> 'r" where
  "initialize self bpool_initialized from_wallet =
     send_transaction self ''initialize''
       [controller bpool_initialized,
        factory bpool_initialized,
        swap_fees bpool_initialized,
        public_swap bpool_initialized,
        finalized bpool_initialized,
        tokens bpool_initialized,
        fee_collectors bpool_initialized]
       from_wallet None"

text \<open>
  \<^verbatim>\<open>setup\<close> (the name is written \<open>setup_pool\<close>, \<open>setup\<close> being a keyword of Isabelle) is
  the one method that passes transaction parameters: the dictionary
  \<^verbatim>\<open>{"gas": balancer_constants.GASLIMIT_BFACTORY_NEWBPOOL}\<close>. The constant lives in a
  module of its own and is the first parameter of the model.
\<close>

definition setup_pool ::
  "int \<Rightarrow> 'r BPool \<Rightarrow> string \<Rightarrow> int \<Rightarrow> int \<Rightarrow> string \<Rightarrow> int \<Rightarrow> int \<Rightarrow> int \<Rightarrow> wallet \<Rightarrow> 'r" where
  "setup_pool GASLIMIT_BFACTORY_NEWBPOOL self data_token data_token_amount data_token_weight
     base_token base_token_amount base_token_weight swap_fee from_wallet =
     send_transaction self ''setup''
       [PStr data_token,
        PInt data_token_amount,
        PInt data_token_weight,
        PStr base_token,
        PInt base_token_amount,
        PInt base_token_weight,
        PInt swap_fee]
       from_wallet
       (Some [(''gas'', PInt GASLIMIT_BFACTORY_NEWBPOOL)])"

definition is_public_pool :: "'r BPool \<Rightarrow> 'r" where
  "is_public_pool self = caller self ''isPublicSwap'' []"

definition opf_fee :: "'r BPool \<Rightarrow> 'r" where
  "opf_fee self = caller self ''getOPFFee'' []"

definition community_fee :: "'r BPool \<Rightarrow> string \<Rightarrow> 'r" where
  "community_fee self address = caller self ''communityFees'' [PStr address]"

definition market_fee :: "'r BPool \<Rightarrow> string \<Rightarrow> 'r" where
  "market_fee self address = caller self ''marketFees'' [PStr address]"

definition is_finalized :: "'r BPool \<Rightarrow> 'r" where
  "is_finalized self = caller self ''isFinalized'' []"

definition is_bound :: "'r BPool \<Rightarrow> string \<Rightarrow> 'r" where
  "is_bound self token_address = caller self ''isBound'' [PStr token_address]"

definition get_num_tokens :: "'r BPool \<Rightarrow> 'r" where
  "get_num_tokens self = caller self ''getNumTokens'' []"

definition get_current_tokens :: "'r BPool \<Rightarrow> 'r" where
  "get_current_tokens self = caller self ''getCurrentTokens'' []"

definition get_final_tokens :: "'r BPool \<Rightarrow> 'r" where
  "get_final_tokens self = caller self ''getFinalTokens'' []"

definition collect_opf :: "'r BPool \<Rightarrow> string \<Rightarrow> wallet \<Rightarrow> 'r" where
  "collect_opf self dst from_wallet =
     send_transaction self ''collectOPF'' [PStr dst] from_wallet None"

definition collect_market_fee :: "'r BPool \<Rightarrow> string \<Rightarrow> wallet \<Rightarrow> 'r" where
  "collect_market_fee self dst from_wallet =
     send_transaction self ''collectMarketFee'' [PStr dst] from_wallet None"

definition update_market_fee_collector :: "'r BPool \<Rightarrow> string \<Rightarrow> wallet \<Rightarrow> 'r" where
  "update_market_fee_collector self new_collector from_wallet =
     send_transaction self ''updateMarketFeeCollector'' [PStr new_collector] from_wallet None"

definition get_denormalized_weight :: "'r BPool \<Rightarrow> string \<Rightarrow> 'r" where
  "get_denormalized_weight self token_address =
     caller self ''getDenormalizedWeight'' [PStr token_address]"

definition get_total_denormalized_weight :: "'r BPool \<Rightarrow> 'r" where
  "get_total_denormalized_weight self = caller self ''getTotalDenormalizedWeight'' []"

definition get_normalized_weight :: "'r BPool \<Rightarrow> string \<Rightarrow> 'r" where
  "get_normalized_weight self token_address =
     caller self ''getNormalizedWeight'' [PStr token_address]"

definition get_balance :: "'r BPool \<Rightarrow> string \<Rightarrow> 'r" where
  "get_balance self token_address = caller self ''getBalance'' [PStr token_address]"

definition get_swap_fee :: "'r BPool \<Rightarrow> 'r" where
  "get_swap_fee self = caller self ''getSwapFee'' []"

definition get_controller :: "'r BPool \<Rightarrow> 'r" where
  "get_controller self = caller self ''getController'' []"

definition get_data_token_address :: "'r BPool \<Rightarrow> 'r" where
  "get_data_token_address self = caller self ''getDataTokenAddress'' []"

definition get_base_token_address :: "'r BPool \<Rightarrow> 'r" where
  "get_base_token_address self = caller self ''getBaseTokenAddress'' []"

definition set_swap_fee :: "'r BPool \<Rightarrow> int \<Rightarrow> wallet \<Rightarrow> 'r" where
  "set_swap_fee self swap_fee from_wallet =
     send_transaction self ''setSwapFee'' [PInt swap_fee] from_wallet None"

definition finalize :: "'r BPool \<Rightarrow> wallet \<Rightarrow> 'r" where
  "finalize self from_wallet = send_transaction self ''finalize'' [] from_wallet None"

definition bind :: "'r BPool \<Rightarrow> string \<Rightarrow> int \<Rightarrow> int \<Rightarrow> wallet \<Rightarrow> 'r" where
  "bind self token_address balance weight from_wallet =
     send_transaction self ''bind'' [PStr token_address, PInt balance, PInt weight] from_wallet None"

definition rebind :: "'r BPool \<Rightarrow> string \<Rightarrow> int \<Rightarrow> int \<Rightarrow> wallet \<Rightarrow> 'r" where
  "rebind self token_address balance weight from_wallet =
     send_transaction self ''rebind''
       [PStr token_address, PInt balance, PInt weight]
       from_wallet None"

definition get_spot_price :: "'r BPool \<Rightarrow> string \<Rightarrow> string \<Rightarrow> 'r" where
  "get_spot_price self token_in token_out =
     caller self ''getSpotPrice'' [PStr token_in, PStr token_out]"

definition join_pool :: "'r BPool \<Rightarrow> int \<Rightarrow> int list \<Rightarrow> wallet \<Rightarrow> 'r" where
  "join_pool self pool_amount_out max_amounts_in from_wallet =
     send_transaction self ''joinPool''
       [PInt pool_amount_out, PList (map PInt max_amounts_in)]
       from_wallet None"

definition exit_pool :: "'r BPool \<Rightarrow> int \<Rightarrow> int list \<Rightarrow> wallet \<Rightarrow> 'r" where
  "exit_pool self pool_amount_in min_amounts_out from_wallet =
     send_transaction self ''exitPool''
       [PInt pool_amount_in, PList (map PInt min_amounts_out)]
       from_wallet None"

definition swap_exact_amount_in :: "'r BPool \<Rightarrow> string \<Rightarrow> int \<Rightarrow> string \<Rightarrow> int \<Rightarrow> int \<Rightarrow> wallet \<Rightarrow> 'r" where
  "swap_exact_amount_in self tokenIn_address tokenAmountIn tokenOut_address minAmountOut maxPrice from_wallet =
     send_transaction self ''swapExactAmountIn''
       [PStr tokenIn_address, PInt tokenAmountIn, PStr tokenOut_address, PInt minAmountOut, PInt maxPrice]
       from_wallet None"

definition swap_exact_amount_out :: "'r BPool \<Rightarrow> string \<Rightarrow> int \<Rightarrow> string \<Rightarrow> int \<Rightarrow> int \<Rightarrow> wallet \<Rightarrow> 'r" where
  "swap_exact_amount_out self tokenIn_address maxAmountIn tokenOut_address tokenAmountOut maxPrice from_wallet =
     send_transaction self ''swapExactAmountOut''
       [PStr tokenIn_address, PInt maxAmountIn, PStr tokenOut_address, PInt tokenAmountOut, PInt maxPrice]
       from_wallet None"

definition join_swap_extern_amount_in :: "'r BPool \<Rightarrow> string \<Rightarrow> int \<Rightarrow> int \<Rightarrow> wallet \<Rightarrow> 'r" where
  "join_swap_extern_amount_in self tokenIn_address tokenAmountIn minPoolAmountOut from_wallet =
     send_transaction self ''joinswapExternAmountIn''
       [PStr tokenIn_address, PInt tokenAmountIn, PInt minPoolAmountOut]
       from_wallet None"

definition join_swap_pool_amount_out :: "'r BPool \<Rightarrow> string \<Rightarrow> int \<Rightarrow> int \<Rightarrow> wallet \<Rightarrow> 'r" where
  "join_swap_pool_amount_out self tokenIn_address poolAmountOut maxAmountIn from_wallet =
     send_transaction self ''joinswapPoolAmountOut''
       [PStr tokenIn_address, PInt poolAmountOut, PInt maxAmountIn]
       from_wallet None"

definition exit_swap_pool_amount_in :: "'r BPool \<Rightarrow> string \<Rightarrow> int \<Rightarrow> int \<Rightarrow> wallet \<Rightarrow> 'r" where
  "exit_swap_pool_amount_in self tokenOut_address poolAmountIn minAmountOut from_wallet =
     send_transaction self ''exitswapPoolAmountIn''
       [PStr tokenOut_address, PInt poolAmountIn, PInt minAmountOut]
       from_wallet None"

definition exit_swap_extern_amount_out :: "'r BPool \<Rightarrow> string \<Rightarrow> int \<Rightarrow> int \<Rightarrow> wallet \<Rightarrow> 'r" where
  "exit_swap_extern_amount_out self tokenOut_address tokenAmountOut maxPoolAmountIn from_wallet =
     send_transaction self ''exitswapExternAmountOut''
       [PStr tokenOut_address, PInt tokenAmountOut, PInt maxPoolAmountIn]
       from_wallet None"

subsection \<open>Calls of the wrapper\<close>

text \<open>
  One constructor for each public member of the class with its arguments, and the
  dispatch of a call to the method it names. The first argument of \<open>invoke\<close> is the
  gas limit constant that \<open>setup_pool\<close> needs.
\<close>

datatype bpool_call =
    Event_LOG_SWAP
  | Event_LOG_JOIN
  | Event_LOG_EXIT
  | Event_LOG_CALL
  | Event_LOG_BPT
  | Initialize BPoolInitialized wallet
  | Setup string int int string int int int wallet
  | Is_public_pool
  | Opf_fee
  | Community_fee string
  | Market_fee string
  | Is_finalized
  | Is_bound string
  | Get_num_tokens
  | Get_current_tokens
  | Get_final_tokens
  | Collect_opf string wallet
  | Collect_market_fee string wallet
  | Update_market_fee_collector string wallet
  | Get_denormalized_weight string
  | Get_total_denormalized_weight
  | Get_normalized_weight string
  | Get_balance string
  | Get_swap_fee
  | Get_controller
  | Get_data_token_address
  | Get_base_token_address
  | Set_swap_fee int wallet
  | Finalize wallet
  | Bind string int int wallet
  | Rebind string int int wallet
  | Get_spot_price string string
  | Join_pool int "int list" wallet
  | Exit_pool int "int list" wallet
  | Swap_exact_amount_in string int string int int wallet
  | Swap_exact_amount_out string int string int int wallet
  | Join_swap_extern_amount_in string int int wallet
  | Join_swap_pool_amount_out string int int wallet
  | Exit_swap_pool_amount_in string int int wallet
  | Exit_swap_extern_amount_out string int int wallet

primrec invoke :: "int \<Rightarrow> 'r BPool \<Rightarrow> bpool_call \<Rightarrow> 'r" where
  "invoke G self Event_LOG_SWAP = event_LOG_SWAP self"
| "invoke G self Event_LOG_JOIN = event_LOG_JOIN self"
| "invoke G self Event_LOG_EXIT = event_LOG_EXIT self"
| "invoke G self Event_LOG_CALL = event_LOG_CALL self"
| "invoke G self Event_LOG_BPT = event_LOG_BPT self"
| "invoke G self (Initialize b w) = initialize self b w"
| "invoke G self (Setup x1 x2 x3 x4 x5 x6 x7 w) = setup_pool G self x1 x2 x3 x4 x5 x6 x7 w"
| "invoke G self Is_public_pool = is_public_pool self"
| "invoke G self Opf_fee = opf_fee self"
| "invoke G self (Community_fee x1) = community_fee self x1"
| "invoke G self (Market_fee x1) = market_fee self x1"
| "invoke G self Is_finalized = is_finalized self"
| "invoke G self (Is_bound x1) = is_bound self x1"
| "invoke G self Get_num_tokens = get_num_tokens self"
| "invoke G self Get_current_tokens = get_current_tokens self"
| "invoke G self Get_final_tokens = get_final_tokens self"
| "invoke G self (Collect_opf x1 w) = collect_opf self x1 w"
| "invoke G self (Collect_market_fee x1 w) = collect_market_fee self x1 w"
| "invoke G self (Update_market_fee_collector x1 w) = update_market_fee_collector self x1 w"
| "invoke G self (Get_denormalized_weight x1) = get_denormalized_weight self x1"
| "invoke G self Get_total_denormalized_weight = get_total_denormalized_weight self"
| "invoke G self (Get_normalized_weight x1) = get_normalized_weight self x1"
| "invoke G self (Get_balance x1) = get_balance self x1"
| "invoke G self Get_swap_fee = get_swap_fee self"
| "invoke G self Get_controller = get_controller self"
| "invoke G self Get_data_token_address = get_data_token_address self"
| "invoke G self Get_base_token_address = get_base_token_address self"
| "invoke G self (Set_swap_fee x1 w) = set_swap_fee self x1 w"
| "invoke G self (Finalize w) = finalize self w"
| "invoke G self (Bind x1 x2 x3 w) = bind self x1 x2 x3 w"
| "invoke G self (Rebind x1 x2 x3 w) = rebind self x1 x2 x3 w"
| "invoke G self (Get_spot_price x1 x2) = get_spot_price self x1 x2"
| "invoke G self (Join_pool x1 x2 w) = join_pool self x1 x2 w"
| "invoke G self (Exit_pool x1 x2 w) = exit_pool self x1 x2 w"
| "invoke G self (Swap_exact_amount_in x1 x2 x3 x4 x5 w) = swap_exact_amount_in self x1 x2 x3 x4 x5 w"
| "invoke G self (Swap_exact_amount_out x1 x2 x3 x4 x5 w) = swap_exact_amount_out self x1 x2 x3 x4 x5 w"
| "invoke G self (Join_swap_extern_amount_in x1 x2 x3 w) = join_swap_extern_amount_in self x1 x2 x3 w"
| "invoke G self (Join_swap_pool_amount_out x1 x2 x3 w) = join_swap_pool_amount_out self x1 x2 x3 w"
| "invoke G self (Exit_swap_pool_amount_in x1 x2 x3 w) = exit_swap_pool_amount_in self x1 x2 x3 w"
| "invoke G self (Exit_swap_extern_amount_out x1 x2 x3 w) = exit_swap_extern_amount_out self x1 x2 x3 w"

subsection \<open>Requests on the channel\<close>

text \<open>
  A request is one use of a member of the pool object, with everything that is handed to
  it; \<open>respond\<close> hands a request to the pool object.
\<close>

datatype request =
    SendTransaction string "pyval list" wallet "transact option"
  | ContractCall string "pyval list"
  | EventObject string

primrec respond :: "'r BPool \<Rightarrow> request \<Rightarrow> 'r" where
  "respond self (SendTransaction fn_name fn_args from_wallet tx) =
     send_transaction self fn_name fn_args from_wallet tx"
| "respond self (ContractCall fn_name fn_args) = caller self fn_name fn_args"
| "respond self (EventObject name) = events self name"

text \<open>
  The request that the specification describes for a call: for a transaction method
  \<open>send_transaction\<close> with the remote function name, the arguments of the caller in the
  order given, the wallet of the caller and nothing else; for a query method the remote
  function of the contract caller with the arguments of the caller; for an event property
  the event object. For \<open>initialize\<close> the arguments of the caller are the seven attributes
  of the object passed in.
\<close>

primrec passthrough_request :: "bpool_call \<Rightarrow> request" where
  "passthrough_request Event_LOG_SWAP = EventObject ''LOG_SWAP''"
| "passthrough_request Event_LOG_JOIN = EventObject ''LOG_JOIN''"
| "passthrough_request Event_LOG_EXIT = EventObject ''LOG_EXIT''"
| "passthrough_request Event_LOG_CALL = EventObject ''LOG_CALL''"
| "passthrough_request Event_LOG_BPT = EventObject ''LOG_BPT''"
| "passthrough_request (Initialize b w) =
     SendTransaction ''initialize''
       [controller b, factory b, swap_fees b, public_swap b, finalized b, tokens b, fee_collectors b]
       w None"
| "passthrough_request (Setup x1 x2 x3 x4 x5 x6 x7 w) =
     SendTransaction ''setup''
       [PStr x1, PInt x2, PInt x3, PStr x4, PInt x5, PInt x6, PInt x7] w None"
| "passthrough_request Is_public_pool = ContractCall ''isPublicSwap'' []"
| "passthrough_request Opf_fee = ContractCall ''getOPFFee'' []"
| "passthrough_request (Community_fee x1) = ContractCall ''communityFees'' [PStr x1]"
| "passthrough_request (Market_fee x1) = ContractCall ''marketFees'' [PStr x1]"
| "passthrough_request Is_finalized = ContractCall ''isFinalized'' []"
| "passthrough_request (Is_bound x1) = ContractCall ''isBound'' [PStr x1]"
| "passthrough_request Get_num_tokens = ContractCall ''getNumTokens'' []"
| "passthrough_request Get_current_tokens = ContractCall ''getCurrentTokens'' []"
| "passthrough_request Get_final_tokens = ContractCall ''getFinalTokens'' []"
| "passthrough_request (Collect_opf x1 w) = SendTransaction ''collectOPF'' [PStr x1] w None"
| "passthrough_request (Collect_market_fee x1 w) =
     SendTransaction ''collectMarketFee'' [PStr x1] w None"
| "passthrough_request (Update_market_fee_collector x1 w) =
     SendTransaction ''updateMarketFeeCollector'' [PStr x1] w None"
| "passthrough_request (Get_denormalized_weight x1) =
     ContractCall ''getDenormalizedWeight'' [PStr x1]"
| "passthrough_request Get_total_denormalized_weight =
     ContractCall ''getTotalDenormalizedWeight'' []"
| "passthrough_request (Get_normalized_weight x1) = ContractCall ''getNormalizedWeight'' [PStr x1]"
| "passthrough_request (Get_balance x1) = ContractCall ''getBalance'' [PStr x1]"
| "passthrough_request Get_swap_fee = ContractCall ''getSwapFee'' []"
| "passthrough_request Get_controller = ContractCall ''getController'' []"
| "passthrough_request Get_data_token_address = ContractCall ''getDataTokenAddress'' []"
| "passthrough_request Get_base_token_address = ContractCall ''getBaseTokenAddress'' []"
| "passthrough_request (Set_swap_fee x1 w) = SendTransaction ''setSwapFee'' [PInt x1] w None"
| "passthrough_request (Finalize w) = SendTransaction ''finalize'' [] w None"
| "passthrough_request (Bind x1 x2 x3 w) =
     SendTransaction ''bind'' [PStr x1, PInt x2, PInt x3] w None"
| "passthrough_request (Rebind x1 x2 x3 w) =
     SendTransaction ''rebind'' [PStr x1, PInt x2, PInt x3] w None"
| "passthrough_request (Get_spot_price x1 x2) = ContractCall ''getSpotPrice'' [PStr x1, PStr x2]"
| "passthrough_request (Join_pool x1 x2 w) =
     SendTransaction ''joinPool'' [PInt x1, PList (map PInt x2)] w None"
| "passthrough_request (Exit_pool x1 x2 w) =
     SendTransaction ''exitPool'' [PInt x1, PList (map PInt x2)] w None"
| "passthrough_request (Swap_exact_amount_in x1 x2 x3 x4 x5 w) =
     SendTransaction ''swapExactAmountIn'' [PStr x1, PInt x2, PStr x3, PInt x4, PInt x5] w None"
| "passthrough_request (Swap_exact_amount_out x1 x2 x3 x4 x5 w) =
     SendTransaction ''swapExactAmountOut'' [PStr x1, PInt x2, PStr x3, PInt x4, PInt x5] w None"
| "passthrough_request (Join_swap_extern_amount_in x1 x2 x3 w) =
     SendTransaction ''joinswapExternAmountIn'' [PStr x1, PInt x2, PInt x3] w None"
| "passthrough_request (Join_swap_pool_amount_out x1 x2 x3 w) =
     SendTransaction ''joinswapPoolAmountOut'' [PStr x1, PInt x2, PInt x3] w None"
| "passthrough_request (Exit_swap_pool_amount_in x1 x2 x3 w) =
     SendTransaction ''exitswapPoolAmountIn'' [PStr x1, PInt x2, PInt x3] w None"
| "passthrough_request (Exit_swap_extern_amount_out x1 x2 x3 w) =
     SendTransaction ''exitswapExternAmountOut'' [PStr x1, PInt x2, PInt x3] w None"

text \<open>The same request with the dictionary of transaction parameters replaced.\<close>

primrec with_transact :: "transact option \<Rightarrow> request \<Rightarrow> request" where
  "with_transact tx (SendTransaction fn_name fn_args from_wallet _) =
     SendTransaction fn_name fn_args from_wallet tx"
| "with_transact tx (ContractCall fn_name fn_args) = ContractCall fn_name fn_args"
| "with_transact tx (EventObject name) = EventObject name"

primrec is_setup :: "bpool_call \<Rightarrow> bool" where
  "is_setup Event_LOG_SWAP = False"
| "is_setup Event_LOG_JOIN = False"
| "is_setup Event_LOG_EXIT = False"
| "is_setup Event_LOG_CALL = False"
| "is_setup Event_LOG_BPT = False"
| "is_setup (Initialize b w) = False"
| "is_setup (Setup x1 x2 x3 x4 x5 x6 x7 w) = True"
| "is_setup Is_public_pool = False"
| "is_setup Opf_fee = False"
| "is_setup (Community_fee x1) = False"
| "is_setup (Market_fee x1) = False"
| "is_setup Is_finalized = False"
| "is_setup (Is_bound x1) = False"
| "is_setup Get_num_tokens = False"
| "is_setup Get_current_tokens = False"
| "is_setup Get_final_tokens = False"
| "is_setup (Collect_opf x1 w) = False"
| "is_setup (Collect_market_fee x1 w) = False"
| "is_setup (Update_market_fee_collector x1 w) = False"
| "is_setup (Get_denormalized_weight x1) = False"
| "is_setup Get_total_denormalized_weight = False"
| "is_setup (Get_normalized_weight x1) = False"
| "is_setup (Get_balance x1) = False"
| "is_setup Get_swap_fee = False"
| "is_setup Get_controller = False"
| "is_setup Get_data_token_address = False"
| "is_setup Get_base_token_address = False"
| "is_setup (Set_swap_fee x1 w) = False"
| "is_setup (Finalize w) = False"
| "is_setup (Bind x1 x2 x3 w) = False"
| "is_setup (Rebind x1 x2 x3 w) = False"
| "is_setup (Get_spot_price x1 x2) = False"
| "is_setup (Join_pool x1 x2 w) = False"
| "is_setup (Exit_pool x1 x2 w) = False"
| "is_setup (Swap_exact_amount_in x1 x2 x3 x4 x5 w) = False"
| "is_setup (Swap_exact_amount_out x1 x2 x3 x4 x5 w) = False"
| "is_setup (Join_swap_extern_amount_in x1 x2 x3 w) = False"
| "is_setup (Join_swap_pool_amount_out x1 x2 x3 w) = False"
| "is_setup (Exit_swap_pool_amount_in x1 x2 x3 w) = False"
| "is_setup (Exit_swap_extern_amount_out x1 x2 x3 w) = False"

text \<open>
  The request a call makes: the one of the specification, with the gas limit as
  transaction parameter when the call is \<open>setup\<close>.
\<close>

definition request_of :: "int \<Rightarrow> bpool_call \<Rightarrow> request" where
  "request_of G c =
     (if is_setup c then with_transact (Some [(''gas'', PInt G)]) (passthrough_request c)
      else passthrough_request c)"

text \<open>
  The pool object whose members answer every request with the request itself: it shows
  what a method hands to the channel.
\<close>

definition recorder :: "request BPool" where
  "recorder = \<lparr>send_transaction = SendTransaction, caller = ContractCall, events = EventObject\<rparr>"


subsection \<open>The inherited members\<close>

text \<open>
  The external system: it answers a request in its state and moves to its next state.
  The state \<open>'x\<close> is what the deployed contract and the node hold; the answer \<open>'a\<close> is a
  value, or a value or an error.
\<close>

type_synonym ('x, 'a) node = "request \<Rightarrow> 'x \<Rightarrow> 'a \<times> 'x"







section \<open>The operations of the repository\<close>







section \<open>Properties\<close>

subsection \<open>Network selection and contract addresses\<close>

lemma startswith_ganache [simp]:
  "\<not> startswith ''ganache'' ''http''" "\<not> startswith ''ganache'' ''ws''"
  by (simp_all add: startswith_def)

lemma startswith_http_not_ws: "startswith s ''http'' \<Longrightarrow> \<not> startswith s ''ws''"
  by (cases s) (auto simp: startswith_def)

text \<open>
  Claim C7. The provider selection: the exact input \<open>ganache\<close> gives the HTTP provider of
  the local node (and never the infura branch); an input starting with \<open>http\<close> gives the
  HTTP provider of that URL; an input starting with \<open>ws\<close> gives the websocket provider of
  that URL, unchanged; any other input among \<open>rinkeby\<close>, \<open>kovan\<close>, \<open>mainnet\<close>, \<open>ropsten\<close>
  gives the websocket provider of the infura URL of that network; every remaining input
  raises an assertion error.
\<close>

theorem get_web3_connection_provider_dispatch:
  "get_web3_connection_provider ''ganache'' = Inr (CustomHTTPProvider ''http://127.0.0.1:8545'')
   \<and> (startswith u ''http'' \<longrightarrow> get_web3_connection_provider u = Inr (CustomHTTPProvider u))
   \<and> (startswith u ''ws'' \<longrightarrow> get_web3_connection_provider u = Inr (WebsocketProvider u))
   \<and> (u \<noteq> ''ganache'' \<and> \<not> startswith u ''http'' \<and> \<not> startswith u ''ws''
        \<and> u \<in> {''rinkeby'', ''kovan'', ''mainnet'', ''ropsten''} \<longrightarrow>
      get_web3_connection_provider u =
        Inr (WebsocketProvider (''wss://'' @ u @ ''.infura.io/ws/v3/357f2fe737db4304bd2f7285c5602d0d'')))
   \<and> (u \<noteq> ''ganache'' \<and> \<not> startswith u ''http'' \<and> \<not> startswith u ''ws''
        \<and> u \<notin> {''rinkeby'', ''kovan'', ''mainnet'', ''ropsten''} \<longrightarrow>
      get_web3_connection_provider u = Inl AssertionError)"
proof (intro conjI impI)
  show "get_web3_connection_provider ''ganache'' = Inr (CustomHTTPProvider ''http://127.0.0.1:8545'')"
    by (simp add: get_web3_connection_provider_def GANACHE_URL_def startswith_def)
next
  assume h: "startswith u ''http''"
  then have "u \<noteq> ''ganache''" by auto
  with h show "get_web3_connection_provider u = Inr (CustomHTTPProvider u)"
    by (simp add: get_web3_connection_provider_def)
next
  assume w: "startswith u ''ws''"
  then have "u \<noteq> ''ganache''" by auto
  moreover from w have "\<not> startswith u ''http''" using startswith_http_not_ws by blast
  ultimately show "get_web3_connection_provider u = Inr (WebsocketProvider u)"
    using w by (simp add: get_web3_connection_provider_def)
next
  assume "u \<noteq> ''ganache'' \<and> \<not> startswith u ''http'' \<and> \<not> startswith u ''ws''
        \<and> u \<in> {''rinkeby'', ''kovan'', ''mainnet'', ''ropsten''}"
  then show "get_web3_connection_provider u =
        Inr (WebsocketProvider (''wss://'' @ u @ ''.infura.io/ws/v3/357f2fe737db4304bd2f7285c5602d0d''))"
    by (auto simp: get_web3_connection_provider_def SUPPORTED_NETWORK_NAMES_def
        get_infura_url_def WEB3_INFURA_PROJECT_ID_def)
next
  assume "u \<noteq> ''ganache'' \<and> \<not> startswith u ''http'' \<and> \<not> startswith u ''ws''
        \<and> u \<notin> {''rinkeby'', ''kovan'', ''mainnet'', ''ropsten''}"
  then show "get_web3_connection_provider u = Inl AssertionError"
    by (auto simp: get_web3_connection_provider_def SUPPORTED_NETWORK_NAMES_def)
qed

theorem get_web3_connection_provider_dispatch_witness:
  "startswith ''http://localhost:8545'' ''http''
   \<and> get_web3_connection_provider ''http://localhost:8545'' = Inr (CustomHTTPProvider ''http://localhost:8545'')
   \<and> startswith ''wss://node.example/ws'' ''ws''
   \<and> get_web3_connection_provider ''wss://node.example/ws'' = Inr (WebsocketProvider ''wss://node.example/ws'')
   \<and> ''kovan'' \<in> {''rinkeby'', ''kovan'', ''mainnet'', ''ropsten''}
   \<and> get_web3_connection_provider ''kovan'' =
       Inr (WebsocketProvider ''wss://kovan.infura.io/ws/v3/357f2fe737db4304bd2f7285c5602d0d'')
   \<and> ''polygon'' \<notin> {''rinkeby'', ''kovan'', ''mainnet'', ''ropsten''}
   \<and> get_web3_connection_provider ''polygon'' = Inl AssertionError"
  using get_web3_connection_provider_dispatch [of "''http://localhost:8545''"]
    get_web3_connection_provider_dispatch [of "''wss://node.example/ws''"]
    get_web3_connection_provider_dispatch [of "''kovan''"]
    get_web3_connection_provider_dispatch [of "''polygon''"]
  by (simp add: startswith_def)

text \<open>
  Claim C8. \<^verbatim>\<open>get_contracts_addresses\<close> returns \<^verbatim>\<open>None\<close> whenever the configured
  address file is unset (\<^verbatim>\<open>None\<close> or empty) or does not exist, and otherwise the entry
  of the file for the network (\<^verbatim>\<open>None\<close> when the network is absent). Whenever it returns
  \<^verbatim>\<open>None\<close>, each of \<^verbatim>\<open>get_dtfactory_address\<close>, \<^verbatim>\<open>get_sfactory_address\<close> and
  \<^verbatim>\<open>get_ocean_token_address\<close> raises an attribute error instead of returning
  \<^verbatim>\<open>None\<close>, and some environment reaches that branch.
\<close>

theorem get_contracts_addresses_none_attribute_error:
  "(address_file cfg = None \<or> address_file cfg = Some [] \<or>
      (\<exists>f. address_file cfg = Some f \<and> fs f = None) \<longrightarrow>
        get_contracts_addresses fs n cfg = Inr JNull)
   \<and> (address_file cfg = Some f \<and> f \<noteq> [] \<and> fs f = Some (Parsed (JObject a)) \<longrightarrow>
        get_contracts_addresses fs n cfg = Inr (case a n of None \<Rightarrow> JNull | Some v \<Rightarrow> v))
   \<and> (get_contracts_addresses (files e) (default_network e network) (get_config e) = Inr JNull \<longrightarrow>
        get_dtfactory_address e network = Inl AttributeError
        \<and> get_sfactory_address e network = Inl AttributeError
        \<and> get_ocean_token_address e network = Inl AttributeError)
   \<and> (\<exists>e' network'. get_dtfactory_address e' network' = Inl AttributeError
        \<and> get_sfactory_address e' network' = Inl AttributeError
        \<and> get_ocean_token_address e' network' = Inl AttributeError)"
proof (intro conjI impI)
  assume "address_file cfg = None \<or> address_file cfg = Some [] \<or>
      (\<exists>f. address_file cfg = Some f \<and> fs f = None)"
  then show "get_contracts_addresses fs n cfg = Inr JNull"
    by (auto simp: get_contracts_addresses_def)
next
  assume "address_file cfg = Some f \<and> f \<noteq> [] \<and> fs f = Some (Parsed (JObject a))"
  then show "get_contracts_addresses fs n cfg = Inr (case a n of None \<Rightarrow> JNull | Some v \<Rightarrow> v)"
    by (simp add: get_contracts_addresses_def)
next
  assume h: "get_contracts_addresses (files e) (default_network e network) (get_config e) = Inr JNull"
  show "get_dtfactory_address e network = Inl AttributeError"
    by (simp add: get_dtfactory_address_def h)
  show "get_sfactory_address e network = Inl AttributeError"
    by (simp add: get_sfactory_address_def h)
  show "get_ocean_token_address e network = Inl AttributeError"
    by (simp add: get_ocean_token_address_def h)
next
  have "get_dtfactory_address bare_env None = Inl AttributeError
        \<and> get_sfactory_address bare_env None = Inl AttributeError
        \<and> get_ocean_token_address bare_env None = Inl AttributeError"
    by (simp add: get_dtfactory_address_def get_sfactory_address_def get_ocean_token_address_def
        get_contracts_addresses_def bare_env_def)
  then show "\<exists>e' network'. get_dtfactory_address e' network' = Inl AttributeError
        \<and> get_sfactory_address e' network' = Inl AttributeError
        \<and> get_ocean_token_address e' network' = Inl AttributeError"
    by blast
qed

theorem get_contracts_addresses_none_attribute_error_witness:
  "address_file \<lparr>address_file = Some ''missing.json''\<rparr> = Some ''missing.json''
   \<and> (Map.empty :: file_system) ''missing.json'' = None
   \<and> get_contracts_addresses Map.empty ''ganache'' \<lparr>address_file = Some ''missing.json''\<rparr> =
       Inr JNull
   \<and> get_contracts_addresses (files ganache_env) ''ganache'' (get_config ganache_env) =
       Inr (JObject [''Ocean'' \<mapsto> JString ''0x01''])
   \<and> get_contracts_addresses (files ganache_env) ''kovan'' (get_config ganache_env) = Inr JNull
   \<and> get_dtfactory_address ganache_env (Some ''kovan'') = Inl AttributeError
   \<and> get_sfactory_address ganache_env (Some ''kovan'') = Inl AttributeError
   \<and> get_ocean_token_address ganache_env (Some ''kovan'') = Inl AttributeError"
proof -
  let ?a = "[''ganache'' \<mapsto> JObject [''Ocean'' \<mapsto> JString ''0x01'']]"
  note w = get_contracts_addresses_none_attribute_error
  have m: "get_contracts_addresses Map.empty ''ganache'' \<lparr>address_file = Some ''missing.json''\<rparr> =
       Inr JNull"
    by (rule w [THEN conjunct1, THEN mp]) simp
  have f: "address_file (get_config ganache_env) = Some ''address.json'' \<and> ''address.json'' \<noteq> []
       \<and> files ganache_env ''address.json'' = Some (Parsed (JObject ?a))"
    by (simp add: ganache_env_def)
  have g: "get_contracts_addresses (files ganache_env) ''ganache'' (get_config ganache_env) =
       Inr (JObject [''Ocean'' \<mapsto> JString ''0x01''])"
    using w [of "get_config ganache_env" "files ganache_env" "''ganache''" "''address.json''" ?a
        bare_env None] f by simp
  have k: "get_contracts_addresses (files ganache_env) ''kovan'' (get_config ganache_env) = Inr JNull"
    using w [of "get_config ganache_env" "files ganache_env" "''kovan''" "''address.json''" ?a
        bare_env None] f by simp
  have k': "get_contracts_addresses (files ganache_env)
       (default_network ganache_env (Some ''kovan'')) (get_config ganache_env) = Inr JNull"
    using k by (simp add: default_network_def)
  note a = w [THEN conjunct2, THEN conjunct2, THEN conjunct1, THEN mp, OF k']
  from m g k a show ?thesis by simp
qed

subsection \<open>Unit conversion\<close>

lemma round_half_even_of_int: "round_half_even (of_int k) = k"
  by (simp add: round_half_even_def)

lemma pow2_nonpos: "e \<le> 0 \<Longrightarrow> pow2 e = 1 / 2 ^ nat (- e)"
  by (auto simp: pow2_def)

lemma floor_log2_of_int: "1 \<le> n \<Longrightarrow> floor_log2 (of_int n) = bitlen n - 1"
  by (simp add: floor_log2_def)

lemma round_double_nat_small:
  assumes "1 \<le> n" "n < 2 ^ 53"
  shows "round_double (of_int n) = of_int n"
proof -
  define e where "e = max (bitlen n - 1 - 52) (- 1074)"
  from assms have "bitlen n \<le> 53"
    by (simp add: bitlen_le_iff_power)
  then have e: "e \<le> 0" by (simp add: e_def)
  have "\<bar>(of_int n :: rat)\<bar> / pow2 e = of_int (n * 2 ^ nat (- e))"
    using assms e by (simp add: pow2_nonpos)
  then have "round_half_even (\<bar>(of_int n :: rat)\<bar> / pow2 e) = n * 2 ^ nat (- e)"
    by (simp only: round_half_even_of_int)
  moreover have "(of_int (n * 2 ^ nat (- e)) :: rat) * pow2 e = of_int n"
    using e by (simp add: pow2_nonpos)
  moreover have "sgn (of_int n :: rat) = 1" using assms by simp
  moreover have "(of_int n :: rat) \<noteq> 0" using assms by simp
  ultimately show ?thesis
    using assms by (simp add: round_double_def floor_log2_of_int e_def Let_def)
qed

lemma round_double_2_53: "round_double (2 ^ 53) = 2 ^ 53"
proof -
  have b: "bitlen (2 ^ 53) = 54"
    using bitlen_twopow_add_eq [of 0 53] by simp
  have f: "floor_log2 (2 ^ 53) = 53"
    using floor_log2_of_int [of "2 ^ 53"] b by simp
  have "round_half_even ((2 :: rat) ^ 52) = 2 ^ 52"
    using round_half_even_of_int [of "2 ^ 52"] by simp
  moreover have "floor_log2 9007199254740992 = 53" using f by simp
  ultimately show ?thesis
    by (simp add: round_double_def pow2_def)
qed

lemma round_double_minus: "round_double (- x) = - round_double x"
  by (simp add: round_double_def Let_def sgn_minus)

lemma round_double_of_int:
  assumes "\<bar>a\<bar> \<le> 2 ^ 53"
  shows "round_double (of_int a) = of_int a"
proof -
  have pos: "round_double (of_int n) = of_int n" if "0 \<le> n" "n \<le> 2 ^ 53" for n :: int
  proof -
    show ?thesis
    proof (cases "n = 0")
      case True
      then show ?thesis by (simp add: round_double_def)
    next
      case nz: False
      show ?thesis
      proof (cases "n = 2 ^ 53")
        case True
        then show ?thesis using round_double_2_53 by simp
      next
        case False
        with nz that have "1 \<le> n" "n < 2 ^ 53" by simp_all
        then show ?thesis by (rule round_double_nat_small)
      qed
    qed
  qed
  show ?thesis
  proof (cases "0 \<le> a")
    case True
    with assms show ?thesis by (intro pos) simp_all
  next
    case False
    with assms have "round_double (of_int (- a)) = of_int (- a)" by (intro pos) simp_all
    then show ?thesis using round_double_minus [of "of_int a"] by simp
  qed
qed

lemma round_double_half: "round_double (1 / 2) = 1 / 2"
proof -
  have "bitlen 1 = 1" using bitlen_twopow_add_eq [of 0 0] by simp
  then have f: "floor_log2 (1 / 2) = - 1" by (simp add: floor_log2_def)
  have "round_half_even ((2 :: rat) ^ 52) = 2 ^ 52"
    using round_half_even_of_int [of "2 ^ 52"] by simp
  then show ?thesis
    by (simp add: round_double_def f pow2_def)
qed

lemma not_overflows_small: "\<bar>r\<bar> \<le> 2 ^ 53 \<Longrightarrow> \<not> overflows r"
proof -
  assume "\<bar>r\<bar> \<le> 2 ^ 53"
  moreover have "(2 :: rat) ^ 53 < 2 ^ 1024" by (rule power_strict_increasing) simp_all
  ultimately show ?thesis by (simp add: overflows_def)
qed


lemma to_base_int: "to_base (PyInt a) dec = Inr (a * 10 ^ dec)"
  by (simp add: to_base_def)

lemma not_overflows_of_int: "\<bar>a\<bar> \<le> 2 ^ 53 \<Longrightarrow> \<not> overflows (of_int a)"
proof -
  assume "\<bar>a\<bar> \<le> 2 ^ 53"
  then have "(of_int \<bar>a\<bar> :: rat) \<le> of_int (2 ^ 53)" by (simp only: of_int_le_iff)
  then have "\<bar>of_int a :: rat\<bar> \<le> 2 ^ 53" by simp
  then show ?thesis by (rule not_overflows_small)
qed

lemma from_base_to_base_int:
  assumes "\<bar>a\<bar> \<le> 2 ^ 53"
  shows "from_base (a * 10 ^ dec) dec = Inr (Finite (of_int a))"
proof -
  have q: "(of_int (a * 10 ^ dec) :: rat) / of_int (10 ^ dec) = of_int a" by simp
  have nz: "((10 :: int) ^ dec = 0) = False" by simp
  have rd: "round_double (of_int a) = of_int a" using assms by (rule round_double_of_int)
  have no: "overflows (of_int a) = False" using assms not_overflows_of_int by simp
  show ?thesis
    by (simp only: from_base_def int_truediv_def Let_def q nz rd no if_False)
qed

lemma round_trip_18_eq: "round_trip_18 amt = round_trip amt 18"
  by (simp only: round_trip_18_def round_trip_def to_base_18_def from_base_18_def)

text \<open>
  Claim C4, as stated: the conversion functions are mutually inverse,
  \<^verbatim>\<open>from_base(to_base(amt, dec), dec) == amt\<close> for every amount and every non-negative
  number of decimals. It fails for the amount \<open>0.5\<close> with no decimals: \<^verbatim>\<open>to_base\<close>
  truncates \<open>0.5\<close> to \<open>0\<close>, \<^verbatim>\<open>from_base\<close> gives \<open>0.0\<close>, and the comparison with
  \<open>0.5\<close> is false.
\<close>

theorem unit_conversion_round_trip_counterexample:
  "round_trip (PyFloat (Finite (1 / 2))) 0 = Inr False"
proof -
  have one: "int_to_float 1 = Inr (Finite 1)"
    using round_double_of_int [of 1] not_overflows_small [of 1]
    by (simp add: int_to_float_def)
  have no: "overflows (1 / 2) = False"
    using not_overflows_small [of "1 / 2"] by simp
  have "float_mul (Finite (1 / 2)) (Finite 1) = Finite (1 / 2)"
    by (simp only: float_mul.simps mult_1_right round_double_half Let_def no if_False)
  moreover have "\<lfloor>1 / 2 :: rat\<rfloor> = 0"
    by (rule floor_unique) simp_all
  ultimately have "to_base (PyFloat (Finite (1 / 2))) 0 = Inr 0"
    by (simp add: to_base_def one trunc_def)
  moreover have "from_base 0 0 = Inr (Finite 0)"
    using from_base_to_base_int [of 0 0] by simp
  ultimately show ?thesis
    by (simp add: round_trip_def)
qed

lemma representable_of_int: "\<bar>a\<bar> \<le> 2 ^ 53 \<Longrightarrow> representable (of_int a)"
  by (simp add: representable_def round_double_of_int not_overflows_of_int)

lemma round_trip_int_iff: "round_trip (PyInt a) dec = Inr True \<longleftrightarrow> representable (of_int a)"
proof -
  have q: "(of_int (a * 10 ^ dec) :: rat) / of_int (10 ^ dec) = of_int a" by simp
  have nz: "((10 :: int) ^ dec = 0) = False" by simp
  have "from_base (a * 10 ^ dec) dec =
      (if overflows (round_double (of_int a)) then Inl OverflowError
       else Inr (Finite (round_double (of_int a))))"
    by (simp only: from_base_def int_truediv_def Let_def q nz if_False)
  then show ?thesis
    by (auto simp: round_trip_def to_base_int representable_def)
qed

lemma int_to_float_one: "int_to_float 1 = Inr (Finite 1)"
  using round_double_of_int [of 1] not_overflows_small [of 1]
  by (simp add: int_to_float_def)

lemma trunc_of_int: "trunc (of_int n) = n"
  by (simp add: trunc_def)

lemma float_mul_representable:
  "representable (a * b) \<Longrightarrow> float_mul (Finite a) (Finite b) = Finite (a * b)"
  by (simp add: representable_def)

lemma int_to_float_representable:
  "representable (of_int n) \<Longrightarrow> int_to_float n = Inr (Finite (of_int n))"
  by (simp add: representable_def int_to_float_def)

lemma round_trip_float:
  assumes x: "representable x" and p: "representable (10 ^ dec)"
    and n: "x * 10 ^ dec = of_int n" and r: "representable (of_int n)"
  shows "round_trip (PyFloat (Finite x)) dec = Inr True"
proof -
  have m1: "float_mul (Finite x) (Finite 1) = Finite x"
    using float_mul_representable [of x 1] x by simp
  have p': "representable (of_int (10 ^ dec))" using p by simp
  have m2: "float_mul (Finite x) (Finite (of_int (10 ^ dec))) = Finite (of_int n)"
    using float_mul_representable [of x "of_int (10 ^ dec)"] r n by simp
  have tb: "to_base (PyFloat (Finite x)) dec = Inr n"
    by (simp add: to_base_def int_to_float_one m1 int_to_float_representable [OF p'] m2
        trunc_of_int del: of_int_power float_mul.simps)
  have q: "(of_int n :: rat) / of_int (10 ^ dec) = x"
    using n [symmetric] by simp
  have nz: "((10 :: int) ^ dec = 0) = False" by simp
  have rd: "round_double x = x" and no: "overflows x = False"
    using x by (simp_all add: representable_def)
  have fb: "from_base n dec = Inr (Finite x)"
    by (simp only: from_base_def int_truediv_def Let_def q nz rd no if_False)
  show ?thesis
    by (simp add: round_trip_def tb fb)
qed

lemma representable_3_2: "representable (3 / 2)"
proof -
  have "bitlen 1 = 1" using bitlen_twopow_add_eq [of 0 0] by simp
  moreover have "\<lfloor>3 / 2 :: rat\<rfloor> = 1" by (rule floor_unique) simp_all
  ultimately have f: "floor_log2 (3 / 2) = 0" by (simp add: floor_log2_def)
  have "round_half_even (3 * 2 ^ 51 :: rat) = 3 * 2 ^ 51"
    using round_half_even_of_int [of "3 * 2 ^ 51"] by simp
  then have "round_double (3 / 2) = 3 / 2"
    by (simp add: round_double_def f pow2_def)
  then show ?thesis
    using not_overflows_small [of "3 / 2"] by (simp add: representable_def)
qed

text \<open>
  Claim C4, amended: the conversion functions are inverse where no digit is lost. For an
  integer amount and every non-negative number of decimals,
  \<^verbatim>\<open>from_base(to_base(amt, dec), dec) == amt\<close> and
  \<^verbatim>\<open>from_base_18(to_base_18(amt)) == amt\<close> hold exactly when the amount is the exact
  value of a float, in particular whenever its magnitude is at most \<open>2\<^sup>5\<^sup>3\<close>. For a float
  amount, \<^verbatim>\<open>from_base(to_base(amt, dec), dec) == amt\<close> holds whenever \<^verbatim>\<open>10**dec\<close> is
  the exact value of a float and the amount times \<^verbatim>\<open>10**dec\<close> is a whole number that is
  the exact value of a float.
\<close>

theorem unit_conversion_round_trip_exact:
  "(round_trip (PyInt a) dec = Inr True \<longleftrightarrow> representable (of_int a))
   \<and> (round_trip_18 (PyInt a) = Inr True \<longleftrightarrow> representable (of_int a))
   \<and> (\<bar>a\<bar> \<le> 2 ^ 53 \<longrightarrow> representable (of_int a))
   \<and> (representable x \<and> representable (10 ^ dec) \<and> x * 10 ^ dec = of_int n
        \<and> representable (of_int n) \<longrightarrow>
      round_trip (PyFloat (Finite x)) dec = Inr True)"
  using round_trip_int_iff [of a dec] round_trip_int_iff [of a 18]
    representable_of_int [of a] round_trip_float [of x dec n]
  by (simp only: round_trip_18_eq) blast

theorem unit_conversion_round_trip_exact_witness:
  "\<bar>25 :: int\<bar> \<le> 2 ^ 53
   \<and> round_trip (PyInt 25) 2 = Inr True
   \<and> round_trip_18 (PyInt 25) = Inr True
   \<and> representable (3 / 2) \<and> representable (10 ^ 1) \<and> (3 / 2 :: rat) * 10 ^ 1 = of_int 15
   \<and> representable (of_int 15)
   \<and> round_trip (PyFloat (Finite (3 / 2))) 1 = Inr True"
proof -
  have a: "\<bar>25 :: int\<bar> \<le> 2 ^ 53" by simp
  have r25: "representable (of_int 25)"
    by (rule unit_conversion_round_trip_exact [THEN conjunct2, THEN conjunct2, THEN conjunct1, THEN mp, OF a])
  have t1: "round_trip (PyInt 25) 2 = Inr True"
    using unit_conversion_round_trip_exact [THEN conjunct1, of 25 2] r25 by (simp only:)
  have t2: "round_trip_18 (PyInt 25) = Inr True"
    using unit_conversion_round_trip_exact [THEN conjunct2, THEN conjunct1, of 25] r25 by (simp only:)
  have r10: "representable (10 ^ 1)" using representable_of_int [of 10] by simp
  have r15: "representable (of_int 15)" using representable_of_int [of 15] by simp
  have e: "(3 / 2 :: rat) * 10 ^ 1 = of_int 15" by simp
  have t3: "round_trip (PyFloat (Finite (3 / 2))) 1 = Inr True"
    using unit_conversion_round_trip_exact
      [THEN conjunct2, THEN conjunct2, THEN conjunct2, THEN mp, of "3 / 2" 1 15]
      representable_3_2 r10 r15 e by blast
  from a t1 t2 representable_3_2 r10 e r15 t3 show ?thesis by blast
qed

text \<open>
  Claim C9. The functions for 18 decimals are the general ones at 18:
  \<^verbatim>\<open>to_base_18(amt) == to_base(amt, 18)\<close> for every amount, and
  \<^verbatim>\<open>from_base_18(num_base) == from_base(num_base, 18)\<close> for every base value.
\<close>

theorem base_18_specialises:
  "to_base_18 amt = to_base amt 18 \<and> from_base_18 num_base = from_base num_base 18"
  by (simp add: to_base_18_def from_base_18_def)

subsection \<open>The pool wrapper\<close>

lemmas bpool_method_defs =
  event_LOG_SWAP_def event_LOG_JOIN_def event_LOG_EXIT_def event_LOG_CALL_def event_LOG_BPT_def
  initialize_def setup_pool_def
  is_public_pool_def opf_fee_def community_fee_def market_fee_def is_finalized_def is_bound_def
  get_num_tokens_def get_current_tokens_def get_final_tokens_def collect_opf_def
  collect_market_fee_def update_market_fee_collector_def get_denormalized_weight_def
  get_total_denormalized_weight_def get_normalized_weight_def get_balance_def get_swap_fee_def
  get_controller_def get_data_token_address_def get_base_token_address_def set_swap_fee_def
  finalize_def bind_def rebind_def get_spot_price_def join_pool_def exit_pool_def
  swap_exact_amount_in_def swap_exact_amount_out_def join_swap_extern_amount_in_def
  join_swap_pool_amount_out_def exit_swap_pool_amount_in_def exit_swap_extern_amount_out_def

lemma invoke_respond: "invoke G self c = respond self (request_of G c)"
  by (cases c) (simp_all add: request_of_def bpool_method_defs)

text \<open>
  Claim C1, as stated: every transaction method calls \<open>send_transaction\<close> with the remote
  function name and exactly the arguments of the caller. It fails for \<^verbatim>\<open>setup\<close>: the
  call that reaches the channel carries the transaction parameter \<^verbatim>\<open>gas\<close>, which the
  caller did not supply, so it is not the request that the claim describes.
\<close>

theorem bpool_pass_through_counterexample:
  "invoke 1000000 recorder (Setup ''0xDT'' 90 9 ''0xBT'' 10 1 3 (Wallet ''alice'')) =
     SendTransaction ''setup''
       [PStr ''0xDT'', PInt 90, PInt 9, PStr ''0xBT'', PInt 10, PInt 1, PInt 3]
       (Wallet ''alice'') (Some [(''gas'', PInt 1000000)])
   \<and> respond recorder (passthrough_request (Setup ''0xDT'' 90 9 ''0xBT'' 10 1 3 (Wallet ''alice''))) =
     SendTransaction ''setup''
       [PStr ''0xDT'', PInt 90, PInt 9, PStr ''0xBT'', PInt 10, PInt 1, PInt 3]
       (Wallet ''alice'') None
   \<and> invoke 1000000 recorder (Setup ''0xDT'' 90 9 ''0xBT'' 10 1 3 (Wallet ''alice'')) \<noteq>
     respond recorder (passthrough_request (Setup ''0xDT'' 90 9 ''0xBT'' 10 1 3 (Wallet ''alice'')))"
  by (simp add: setup_pool_def recorder_def)

text \<open>
  Claim C1, amended: every public member of \<^verbatim>\<open>BPool\<close> is a pass-through. What a call
  does is what the channel does on one request: for a transaction method
  \<open>send_transaction\<close> with the remote function name, the arguments of the caller unmodified
  and in the order given (for \<^verbatim>\<open>initialize\<close> the seven attributes of the object passed
  in) and the wallet of the caller, without transaction parameters except for \<^verbatim>\<open>setup\<close>,
  which adds the fixed gas limit; for a query method the remote function of the contract
  caller with the arguments of the caller, whose result is returned unchanged.
\<close>

theorem bpool_pass_through:
  "invoke G self c =
     respond self
       (if is_setup c then with_transact (Some [(''gas'', PInt G)]) (passthrough_request c)
        else passthrough_request c)"
  using invoke_respond [of G self c] by (simp only: request_of_def)

theorem bpool_pass_through_witness:
  "invoke 1000000 recorder (Bind ''0xT'' 5 2 (Wallet ''alice'')) =
     SendTransaction ''bind'' [PStr ''0xT'', PInt 5, PInt 2] (Wallet ''alice'') None
   \<and> invoke 1000000 recorder (Get_spot_price ''0xA'' ''0xB'') =
     ContractCall ''getSpotPrice'' [PStr ''0xA'', PStr ''0xB'']
   \<and> invoke 1000000 recorder (Join_pool 7 [1, 2] (Wallet ''alice'')) =
     SendTransaction ''joinPool'' [PInt 7, PList [PInt 1, PInt 2]] (Wallet ''alice'') None
   \<and> invoke 1000000 recorder (Setup ''0xDT'' 90 9 ''0xBT'' 10 1 3 (Wallet ''alice'')) =
     SendTransaction ''setup''
       [PStr ''0xDT'', PInt 90, PInt 9, PStr ''0xBT'', PInt 10, PInt 1, PInt 3]
       (Wallet ''alice'') (Some [(''gas'', PInt 1000000)])"
  using bpool_pass_through [of 1000000 recorder "Bind ''0xT'' 5 2 (Wallet ''alice'')"]
    bpool_pass_through [of 1000000 recorder "Get_spot_price ''0xA'' ''0xB''"]
    bpool_pass_through [of 1000000 recorder "Join_pool 7 [1, 2] (Wallet ''alice'')"]
    bpool_pass_through [of 1000000 recorder "Setup ''0xDT'' 90 9 ''0xBT'' 10 1 3 (Wallet ''alice'')"]
  by (simp add: recorder_def)









subsection \<open>Errors and the external system\<close>















end
